theory Spec2Isabelle
  imports Complex_Main
begin

section \<open>JavaScript numbers\<close>

text \<open>
  The component computes with JavaScript numbers, that is IEEE 754 binary64. \<open>Fin x\<close> is
  the double whose value is the real \<open>x\<close> (the sign of zero is not distinguished); the two
  infinities and NaN are kept, so that a division by a zero natural size is the value the
  program computes and not the \<open>0\<close> of HOL's total division. Division and multiplication
  round their exact result to the nearest double, ties to even.
\<close>

datatype number = Fin real | PosInf | NegInf | NaN

text \<open>The number of binary digits of a natural number.\<close>

fun bit_length :: "nat \<Rightarrow> nat" where
  "bit_length n = (if n = 0 then 0 else Suc (bit_length (n div 2)))"

declare bit_length.simps [simp del]

text \<open>For \<open>x > 0\<close>, the exponent \<open>e\<close> with \<open>2^e \<le> x < 2^(e+1)\<close>.\<close>

definition binary_exponent :: "real \<Rightarrow> int" where
  "binary_exponent x =
     (if 1 \<le> x then int (bit_length (nat \<lfloor>x\<rfloor>)) - 1
      else - int (bit_length (nat (\<lceil>1 / x\<rceil> - 1))))"

definition pow2 :: "int \<Rightarrow> real" where
  "pow2 e = (if 0 \<le> e then 2 ^ nat e else 1 / 2 ^ nat (- e))"

definition round_half_even :: "real \<Rightarrow> int" where
  "round_half_even x =
     (let f = \<lfloor>x\<rfloor>; d = x - of_int f
      in if d < 1 / 2 then f else if 1 / 2 < d then f + 1 else if even f then f else f + 1)"

text \<open>
  A positive real rounded to 53 significant bits. Below \<open>2^-1022\<close> the spacing stays
  \<open>2^-1074\<close> (subnormal numbers, and underflow to zero).
\<close>

definition round_positive :: "real \<Rightarrow> real" where
  "round_positive x =
     (let e = max (binary_exponent x) (- 1022); ulp = pow2 (e - 52)
      in of_int (round_half_even (x / ulp)) * ulp)"

text \<open>The double nearest to a real; a result of \<open>2^1024\<close> or more has overflowed.\<close>

definition js_round :: "real \<Rightarrow> number" where
  "js_round x =
     (if x = 0 then Fin 0
      else if 0 < x
        then (let r = round_positive x in if 2 ^ 1024 \<le> r then PosInf else Fin r)
        else (let r = round_positive (- x) in if 2 ^ 1024 \<le> r then NegInf else Fin (- r)))"

fun js_div :: "number \<Rightarrow> number \<Rightarrow> number" where
  "js_div (Fin a) (Fin b) =
     (if b \<noteq> 0 then js_round (a / b)
      else if 0 < a then PosInf else if a < 0 then NegInf else NaN)"
| "js_div (Fin a) PosInf = Fin 0"
| "js_div (Fin a) NegInf = Fin 0"
| "js_div PosInf (Fin b) = (if 0 \<le> b then PosInf else NegInf)"
| "js_div NegInf (Fin b) = (if 0 \<le> b then NegInf else PosInf)"
| "js_div _ _ = NaN"

fun js_mul :: "number \<Rightarrow> number \<Rightarrow> number" where
  "js_mul (Fin a) (Fin b) = js_round (a * b)"
| "js_mul (Fin a) PosInf = (if 0 < a then PosInf else if a < 0 then NegInf else NaN)"
| "js_mul (Fin a) NegInf = (if 0 < a then NegInf else if a < 0 then PosInf else NaN)"
| "js_mul PosInf (Fin b) = (if 0 < b then PosInf else if b < 0 then NegInf else NaN)"
| "js_mul NegInf (Fin b) = (if 0 < b then NegInf else if b < 0 then PosInf else NaN)"
| "js_mul PosInf PosInf = PosInf"
| "js_mul PosInf NegInf = NegInf"
| "js_mul NegInf PosInf = NegInf"
| "js_mul NegInf NegInf = PosInf"
| "js_mul _ _ = NaN"

fun js_min2 :: "number \<Rightarrow> number \<Rightarrow> number" where
  "js_min2 NaN _ = NaN"
| "js_min2 _ NaN = NaN"
| "js_min2 NegInf _ = NegInf"
| "js_min2 _ NegInf = NegInf"
| "js_min2 PosInf b = b"
| "js_min2 a PosInf = a"
| "js_min2 (Fin a) (Fin b) = Fin (min a b)"

fun js_max2 :: "number \<Rightarrow> number \<Rightarrow> number" where
  "js_max2 NaN _ = NaN"
| "js_max2 _ NaN = NaN"
| "js_max2 PosInf _ = PosInf"
| "js_max2 _ PosInf = PosInf"
| "js_max2 NegInf b = b"
| "js_max2 a NegInf = a"
| "js_max2 (Fin a) (Fin b) = Fin (max a b)"

text \<open>\<^verbatim>\<open>Math.min(...)\<close> and \<^verbatim>\<open>Math.max(...)\<close>: NaN if an argument is NaN, and
  \<open>Infinity\<close>, \<open>-Infinity\<close> on no arguments.\<close>

definition Math_min :: "number list \<Rightarrow> number" where
  "Math_min xs = foldl js_min2 PosInf xs"

definition Math_max :: "number list \<Rightarrow> number" where
  "Math_max xs = foldl js_max2 NegInf xs"

text \<open>\<^verbatim>\<open>a !== b\<close> on numbers: NaN differs from everything, itself included.\<close>

fun js_strict_neq :: "number \<Rightarrow> number \<Rightarrow> bool" where
  "js_strict_neq NaN _ = True"
| "js_strict_neq _ NaN = True"
| "js_strict_neq a b = (a \<noteq> b)"

text \<open>
  Assigning a number to \<^verbatim>\<open>canvas.width\<close> or \<^verbatim>\<open>canvas.height\<close> first converts it to an
  unsigned long: NaN and the infinities become 0, a finite value is truncated towards zero
  and reduced modulo \<open>2^32\<close>.
\<close>

fun to_unsigned_long :: "number \<Rightarrow> nat" where
  "to_unsigned_long (Fin a) =
     nat ((if a < 0 then - \<lfloor>- a\<rfloor> else \<lfloor>a\<rfloor>) mod 2 ^ 32)"
| "to_unsigned_long _ = 0"

text \<open>
  The two attributes reflect content attributes that hold a non-negative integer of at
  most \<open>2^31 - 1\<close>: a converted value above that is replaced by the attribute's default.
\<close>

definition reflect_unsigned_long :: "nat \<Rightarrow> number \<Rightarrow> nat" where
  "reflect_unsigned_long default_value x =
     (let v = to_unsigned_long x in if v \<le> 2147483647 then v else default_value)"

section \<open>The decoded image and the display geometry\<close>

text \<open>An \<^verbatim>\<open>HTMLImageElement\<close> after decoding: its natural size (unsigned integers) and the
  data URL it was decoded from, which stands for its pixels.\<close>

record HTMLImageElement =
  naturalWidth :: nat
  naturalHeight :: nat
  src :: string

record geometry =
  scale :: number
  displayWidth :: number
  displayHeight :: number

text \<open>The scale computation of the draw effect (\<^verbatim>\<open>scaleX\<close>, \<^verbatim>\<open>scaleY\<close>, \<^verbatim>\<open>scale\<close>,
  \<^verbatim>\<open>displayWidth\<close>, \<^verbatim>\<open>displayHeight\<close>).\<close>

definition displayGeometry :: "number \<Rightarrow> number \<Rightarrow> HTMLImageElement \<Rightarrow> geometry" where
  "displayGeometry maxDisplayWidth maxDisplayHeight img =
     (let scaleX = js_div maxDisplayWidth (Fin (real (naturalWidth img)));
          scaleY = js_div maxDisplayHeight (Fin (real (naturalHeight img)));
          scale = Math_min [scaleX, scaleY, Fin 1]
      in \<lparr> scale = scale,
           displayWidth = js_mul (Fin (real (naturalWidth img))) scale,
           displayHeight = js_mul (Fin (real (naturalHeight img))) scale \<rparr>)"

section \<open>The canvas\<close>

text \<open>
  The part of the 2D context's drawing state that the component assigns. Everything else
  (transform, clip, alpha, compositing) keeps its default throughout.
\<close>

record context_state =
  fillStyle :: string
  strokeStyle :: string
  lineWidth :: real
  lineCap :: string
  lineJoin :: string
  textAlign :: string
  font :: string

definition default_context :: context_state where
  "default_context =
     \<lparr> fillStyle = ''#000000'', strokeStyle = ''#000000'', lineWidth = 1,
       lineCap = ''butt'', lineJoin = ''miter'', textAlign = ''start'',
       font = ''10px sans-serif'' \<rparr>"

text \<open>\<^verbatim>\<open>type Point = { x: number; y: number }\<close>, \<^verbatim>\<open>type Path = Point[]\<close>. Pointer
  coordinates are finite.\<close>

datatype Point = Point (point_x: real) (point_y: real)

type_synonym Path = "Point list"

datatype path_cmd = MoveTo real real | LineTo real real

text \<open>
  The raster is not modelled pixel by pixel: a canvas bitmap is the list of painting
  operations applied, oldest first, to the transparent bitmap left by the last clear. Each
  operation carries the drawing state it was painted with, so two bitmaps with the same
  size and the same list have the same pixels.
\<close>

datatype draw_op =
    FillRect string number number number number
  | FillText string string string string number number
  | ClearRect number number number number
  | DrawImage HTMLImageElement number number number number
  | Stroke string real string string "path_cmd list"

record HTMLCanvasElement =
  canvas_width :: nat
  canvas_height :: nat
  ctx :: context_state
  bitmap :: "draw_op list"

text \<open>Assigning \<^verbatim>\<open>canvas.width\<close> or \<^verbatim>\<open>canvas.height\<close> clears the bitmap and resets the
  context's drawing state, also when the value does not change. The defaults are 300 and
  150.\<close>

definition set_width :: "number \<Rightarrow> HTMLCanvasElement \<Rightarrow> HTMLCanvasElement" where
  "set_width w canvas =
     canvas\<lparr> canvas_width := reflect_unsigned_long 300 w, ctx := default_context,
             bitmap := [] \<rparr>"

definition set_height :: "number \<Rightarrow> HTMLCanvasElement \<Rightarrow> HTMLCanvasElement" where
  "set_height h canvas =
     canvas\<lparr> canvas_height := reflect_unsigned_long 150 h, ctx := default_context,
             bitmap := [] \<rparr>"

text \<open>A rectangle that is exactly the canvas.\<close>

definition whole_canvas ::
  "HTMLCanvasElement \<Rightarrow> number \<Rightarrow> number \<Rightarrow> number \<Rightarrow> number \<Rightarrow> bool" where
  "whole_canvas canvas x y w h =
     (x = Fin 0 \<and> y = Fin 0 \<and> w = Fin (real (canvas_width canvas))
      \<and> h = Fin (real (canvas_height canvas)))"

text \<open>A colour written \<^verbatim>\<open>#rrggbb\<close> has alpha 1.\<close>

definition opaque_colour :: "string \<Rightarrow> bool" where
  "opaque_colour style = (case style of [] \<Rightarrow> False | c # cs \<Rightarrow> c = CHR ''#'' \<and> length cs = 6)"

text \<open>\<^verbatim>\<open>ctx.clearRect\<close>: clearing the whole canvas leaves the transparent bitmap.\<close>

definition clearRect ::
  "number \<Rightarrow> number \<Rightarrow> number \<Rightarrow> number \<Rightarrow> HTMLCanvasElement \<Rightarrow> HTMLCanvasElement" where
  "clearRect x y w h canvas =
     (if whole_canvas canvas x y w h then canvas\<lparr> bitmap := [] \<rparr>
      else canvas\<lparr> bitmap := bitmap canvas @ [ClearRect x y w h] \<rparr>)"

text \<open>\<^verbatim>\<open>ctx.fillRect\<close>: an opaque fill of the whole canvas replaces every pixel, so nothing
  painted before it shows.\<close>

definition fillRect ::
  "number \<Rightarrow> number \<Rightarrow> number \<Rightarrow> number \<Rightarrow> HTMLCanvasElement \<Rightarrow> HTMLCanvasElement" where
  "fillRect x y w h canvas =
     (let painted = FillRect (fillStyle (ctx canvas)) x y w h
      in if whole_canvas canvas x y w h \<and> opaque_colour (fillStyle (ctx canvas))
         then canvas\<lparr> bitmap := [painted] \<rparr>
         else canvas\<lparr> bitmap := bitmap canvas @ [painted] \<rparr>)"

definition fillText :: "string \<Rightarrow> number \<Rightarrow> number \<Rightarrow> HTMLCanvasElement \<Rightarrow> HTMLCanvasElement" where
  "fillText txt x y canvas =
     canvas\<lparr> bitmap := bitmap canvas @
       [FillText (fillStyle (ctx canvas)) (textAlign (ctx canvas))
          (font (ctx canvas)) txt x y] \<rparr>"

definition drawImage ::
  "HTMLImageElement \<Rightarrow> number \<Rightarrow> number \<Rightarrow> number \<Rightarrow> number
     \<Rightarrow> HTMLCanvasElement \<Rightarrow> HTMLCanvasElement" where
  "drawImage img x y w h canvas = canvas\<lparr> bitmap := bitmap canvas @ [DrawImage img x y w h] \<rparr>"

text \<open>\<^verbatim>\<open>beginPath\<close>, \<^verbatim>\<open>moveTo(path[0])\<close>, the loop of \<^verbatim>\<open>lineTo(path[i])\<close> from
  \<open>i = 1\<close>, and \<^verbatim>\<open>stroke\<close>.\<close>

fun tracePath :: "Path \<Rightarrow> path_cmd list" where
  "tracePath [] = []"
| "tracePath (p # ps) =
     MoveTo (point_x p) (point_y p) # map (\<lambda>q. LineTo (point_x q) (point_y q)) ps"

definition strokePath :: "Path \<Rightarrow> HTMLCanvasElement \<Rightarrow> HTMLCanvasElement" where
  "strokePath path canvas =
     canvas\<lparr> bitmap := bitmap canvas @
       [Stroke (strokeStyle (ctx canvas)) (lineWidth (ctx canvas))
          (lineCap (ctx canvas)) (lineJoin (ctx canvas)) (tracePath path)] \<rparr>"

text \<open>
  \<^verbatim>\<open>canvas.toDataURL('image/png')\<close>. A canvas with no pixels, its width or height being
  0, yields the string \<^verbatim>\<open>data:,\<close>, which encodes nothing. Otherwise the encoding is kept
  abstract, as the media type with the size and bitmap it encodes.
\<close>

datatype DataURL = EmptyDataURL | DataURL string nat nat "draw_op list"

definition toDataURL :: "string \<Rightarrow> HTMLCanvasElement \<Rightarrow> DataURL" where
  "toDataURL mime canvas =
     (if canvas_width canvas = 0 \<or> canvas_height canvas = 0 then EmptyDataURL
      else DataURL mime (canvas_width canvas) (canvas_height canvas) (bitmap canvas))"

section \<open>The component\<close>

text \<open>A \<^verbatim>\<open>File\<close> handed to the component: its name and what decoding its bytes
  yields, \<open>None\<close> when they are not a raster image.\<close>

datatype File = File (file_name: string) (decoded: "HTMLImageElement option")

text \<open>What the component does to the outside: calls of the \<^verbatim>\<open>onSelectionChange\<close> prop,
  the only callback the host passes in, and lines written with \<^verbatim>\<open>console.error\<close>.\<close>

datatype effect = OnSelectionChange bool | ConsoleError string

text \<open>The props (\<^verbatim>\<open>imageFile\<close>, \<^verbatim>\<open>maxDisplayWidth\<close>, \<^verbatim>\<open>maxDisplayHeight\<close>), the
  four \<^verbatim>\<open>useState\<close> cells, the canvas ref (\<open>None\<close> while no canvas element is mounted)
  and the effects performed so far, oldest first.\<close>

record component =
  imageFile :: "File option"
  maxDisplayWidth :: number
  maxDisplayHeight :: number
  image_state :: "HTMLImageElement option"
  drawingPaths :: "Path list"
  isDrawing :: bool
  currentPath :: Path
  canvasRef :: "HTMLCanvasElement option"
  effects :: "effect list"

text \<open>The component as first rendered, with the default bounds 800 by 600.\<close>

definition initial :: "File option \<Rightarrow> component" where
  "initial file =
     \<lparr> imageFile = file, maxDisplayWidth = Fin 800, maxDisplayHeight = Fin 600,
       image_state = None, drawingPaths = [], isDrawing = False, currentPath = [],
       canvasRef = None, effects = [] \<rparr>"

subsection \<open>Loading\<close>

text \<open>\<^verbatim>\<open>img.onload\<close> and \<^verbatim>\<open>img.onerror\<close> of the image-load effect.\<close>

definition img_onload :: "HTMLImageElement \<Rightarrow> component \<Rightarrow> component" where
  "img_onload img s =
     s\<lparr> image_state := Some img, drawingPaths := [],
        effects := effects s @ [OnSelectionChange False] \<rparr>"

definition img_onerror :: "component \<Rightarrow> component" where
  "img_onerror s =
     s\<lparr> image_state := None, drawingPaths := [],
        effects := effects s @ [ConsoleError ''Error loading image source.'',
                                OnSelectionChange False] \<rparr>"

text \<open>
  The image-load effect starts a \<^verbatim>\<open>FileReader\<close> and, when the read is done, an
  \<^verbatim>\<open>Image\<close> whose \<^verbatim>\<open>onload\<close> or \<^verbatim>\<open>onerror\<close> runs once the decode is over. Between the
  start and that callback the request is in flight, outside the component: the browser
  holds the requests started and not yet completed, oldest first. The effect returns no
  cleanup function, so a request once started stays in flight until it completes.
\<close>

record browser =
  display :: component
  in_flight :: "File list"

definition loadEffect :: "browser \<Rightarrow> browser" where
  "loadEffect b =
     (case imageFile (display b) of
        Some file \<Rightarrow> b\<lparr> in_flight := in_flight b @ [file] \<rparr>
      | None \<Rightarrow>
          b\<lparr> display := (display b)\<lparr> image_state := None, drawingPaths := [],
                 effects := effects (display b) @ [OnSelectionChange False] \<rparr> \<rparr>)"

text \<open>The component is mounted on a canvas: the first render, then the effect.\<close>

definition mount :: "File option \<Rightarrow> HTMLCanvasElement \<Rightarrow> browser" where
  "mount file canvas =
     loadEffect \<lparr> display = (initial file)\<lparr> canvasRef := Some canvas \<rparr>, in_flight = [] \<rparr>"

text \<open>
  The host passes another \<^verbatim>\<open>imageFile\<close>: another \<^verbatim>\<open>File\<close> object, or \<^verbatim>\<open>null\<close> in
  place of one. React compares the dependency by identity, so the effect runs again, also
  when the new object has the name and bytes of the old one.
\<close>

definition setImageFile :: "File option \<Rightarrow> browser \<Rightarrow> browser" where
  "setImageFile file b = loadEffect (b\<lparr> display := (display b)\<lparr> imageFile := file \<rparr> \<rparr>)"

text \<open>The request at position \<open>i\<close> of those in flight completes.\<close>

definition completes :: "nat \<Rightarrow> browser \<Rightarrow> browser" where
  "completes i b =
     (if i < length (in_flight b)
      then \<lparr> display =
               (case decoded (in_flight b ! i) of
                  Some img \<Rightarrow> img_onload img (display b)
                | None \<Rightarrow> img_onerror (display b)),
             in_flight = take i (in_flight b) @ drop (Suc i) (in_flight b) \<rparr>
      else b)"

datatype load_event = ImageFileProp "File option" | DecodeCompletes nat

fun fire :: "browser \<Rightarrow> load_event \<Rightarrow> browser" where
  "fire b (ImageFileProp file) = setImageFile file b"
| "fire b (DecodeCompletes i) = completes i b"

definition run :: "browser \<Rightarrow> load_event list \<Rightarrow> browser" where
  "run b evs = foldl fire b evs"

subsection \<open>The draw effect\<close>

definition drawPlaceholder ::
  "number \<Rightarrow> number \<Rightarrow> HTMLCanvasElement \<Rightarrow> HTMLCanvasElement" where
  "drawPlaceholder maxW maxH canvas =
     (let placeholderWidth = maxW;
          placeholderHeight = Math_max [Fin 200, maxH];
          c1 = (if js_strict_neq (Fin (real (canvas_width canvas))) placeholderWidth
                   \<or> js_strict_neq (Fin (real (canvas_height canvas))) placeholderHeight
                then set_height placeholderHeight (set_width placeholderWidth canvas)
                else canvas);
          c2 = c1\<lparr> ctx := (ctx c1)\<lparr> fillStyle := ''#334155'' \<rparr> \<rparr>;
          c3 = fillRect (Fin 0) (Fin 0) (Fin (real (canvas_width c2)))
                 (Fin (real (canvas_height c2))) c2;
          c4 = c3\<lparr> ctx := (ctx c3)\<lparr> fillStyle := ''#94A3B8'', textAlign := ''center'',
                                   font := ''16px Inter, sans-serif'' \<rparr> \<rparr>
      in fillText ''Image display area''
           (js_div (Fin (real (canvas_width c4))) (Fin 2))
           (js_div (Fin (real (canvas_height c4))) (Fin 2)) c4)"

text \<open>The body of \<^verbatim>\<open>drawingPaths.forEach\<close>.\<close>

definition drawPath :: "HTMLCanvasElement \<Rightarrow> Path \<Rightarrow> HTMLCanvasElement" where
  "drawPath canvas path = (if length path < 2 then canvas else strokePath path canvas)"

definition drawComposite ::
  "number \<Rightarrow> number \<Rightarrow> HTMLImageElement \<Rightarrow> Path list \<Rightarrow> bool \<Rightarrow> Path
     \<Rightarrow> HTMLCanvasElement \<Rightarrow> HTMLCanvasElement" where
  "drawComposite maxW maxH img paths drawing current canvas =
     (let g = displayGeometry maxW maxH img;
          c1 = (if js_strict_neq (Fin (real (canvas_width canvas))) (displayWidth g)
                   \<or> js_strict_neq (Fin (real (canvas_height canvas))) (displayHeight g)
                then set_height (displayHeight g) (set_width (displayWidth g) canvas)
                else clearRect (Fin 0) (Fin 0) (Fin (real (canvas_width canvas)))
                       (Fin (real (canvas_height canvas))) canvas);
          c2 = drawImage img (Fin 0) (Fin 0) (displayWidth g) (displayHeight g) c1;
          c3 = c2\<lparr> ctx := (ctx c2)\<lparr> strokeStyle := ''rgba(239, 68, 68, 0.9)'', lineWidth := 3,
                                   lineCap := ''round'', lineJoin := ''round'' \<rparr> \<rparr>;
          c4 = foldl drawPath c3 paths
      in if drawing \<and> length current > 1 then strokePath current c4 else c4)"

definition draw :: "component \<Rightarrow> HTMLCanvasElement \<Rightarrow> HTMLCanvasElement" where
  "draw s canvas =
     (case image_state s of
        None \<Rightarrow> drawPlaceholder (maxDisplayWidth s) (maxDisplayHeight s) canvas
      | Some img \<Rightarrow>
          drawComposite (maxDisplayWidth s) (maxDisplayHeight s) img (drawingPaths s)
            (isDrawing s) (currentPath s) canvas)"

text \<open>The effect returns at once when the ref holds no canvas. A canvas that has only
  ever been asked for its 2D context always yields it.\<close>

definition drawEffect :: "component \<Rightarrow> component" where
  "drawEffect s =
     (case canvasRef s of
        None \<Rightarrow> s
      | Some canvas \<Rightarrow> s\<lparr> canvasRef := Some (draw s canvas) \<rparr>)"

subsection \<open>Pointer handlers\<close>

datatype native_event =
    MouseEvent (button: int) (clientX: real) (clientY: real)
  | TouchEvent (touches: "(real \<times> real) list")

record DOMRect =
  rect_left :: real
  rect_top :: real

datatype error = TypeError

text \<open>\<^verbatim>\<open>getMousePos\<close>; reading \<^verbatim>\<open>evt.touches[0].clientX\<close> of a touch event with no
  touch throws.\<close>

definition getMousePos :: "DOMRect \<Rightarrow> native_event \<Rightarrow> error + Point" where
  "getMousePos rect evt =
     (case evt of
        TouchEvent ts \<Rightarrow>
          (case ts of
             [] \<Rightarrow> Inl TypeError
           | t # _ \<Rightarrow> Inr (Point (fst t - rect_left rect) (snd t - rect_top rect)))
      | MouseEvent b x y \<Rightarrow> Inr (Point (x - rect_left rect) (y - rect_top rect)))"

definition secondary_button :: "native_event \<Rightarrow> bool" where
  "secondary_button evt = (case evt of MouseEvent b x y \<Rightarrow> b \<noteq> 0 | TouchEvent ts \<Rightarrow> False)"

text \<open>
  A handler reads the state of the render it was created in; each event is taken to be
  handled after the render that follows the event before it, so that state is the current
  one. The handlers take the canvas's bounding rectangle at the time of the event.
  \<^verbatim>\<open>canvasRef.current!\<close> asserts a canvas; without one the read of its rectangle
  throws.
\<close>

definition handleInteractionStart ::
  "DOMRect \<Rightarrow> native_event \<Rightarrow> component \<Rightarrow> error + component" where
  "handleInteractionStart rect event s =
     (if image_state s = None \<or> secondary_button event then Inr s
      else case canvasRef s of
             None \<Rightarrow> Inl TypeError
           | Some canvas \<Rightarrow>
               (case getMousePos rect event of
                  Inl e \<Rightarrow> Inl e
                | Inr pos \<Rightarrow> Inr (s\<lparr> isDrawing := True, currentPath := [pos] \<rparr>)))"

definition handleInteractionMove ::
  "DOMRect \<Rightarrow> native_event \<Rightarrow> component \<Rightarrow> error + component" where
  "handleInteractionMove rect event s =
     (if \<not> isDrawing s \<or> image_state s = None then Inr s
      else case canvasRef s of
             None \<Rightarrow> Inl TypeError
           | Some canvas \<Rightarrow>
               (case getMousePos rect event of
                  Inl e \<Rightarrow> Inl e
                | Inr pos \<Rightarrow> Inr (s\<lparr> currentPath := currentPath s @ [pos] \<rparr>)))"

definition handleInteractionEnd :: "component \<Rightarrow> component" where
  "handleInteractionEnd s =
     (if \<not> isDrawing s \<or> image_state s = None then s
      else let s1 = s\<lparr> isDrawing := False \<rparr>;
               s2 = (if length (currentPath s) > 1
                     then let newPaths = drawingPaths s @ [currentPath s]
                          in s1\<lparr> drawingPaths := newPaths,
                                 effects := effects s1 @ [OnSelectionChange (length newPaths > 0)] \<rparr>
                     else s1)
           in s2\<lparr> currentPath := [] \<rparr>)"

subsection \<open>The imperative handle\<close>

definition getAnnotatedImageDataUrl :: "component \<Rightarrow> DataURL option" where
  "getAnnotatedImageDataUrl s =
     (case canvasRef s of
        None \<Rightarrow> None
      | Some canvas \<Rightarrow>
          (if image_state s = None then None else Some (toDataURL ''image/png'' canvas)))"

definition clearSelection :: "component \<Rightarrow> component" where
  "clearSelection s =
     s\<lparr> drawingPaths := [], currentPath := [], isDrawing := False,
        effects := effects s @ [OnSelectionChange False] \<rparr>"

section \<open>What the host sees\<close>

text \<open>The arguments of the \<^verbatim>\<open>onSelectionChange\<close> calls, oldest first: all that the
  component hands to its host through a callback.\<close>

fun host_calls :: "effect list \<Rightarrow> bool list" where
  "host_calls [] = []"
| "host_calls (OnSelectionChange exists # es) = exists # host_calls es"
| "host_calls (ConsoleError line # es) = host_calls es"

text \<open>The session shows the outcome of the source requested last: the decoded image of
  the current \<^verbatim>\<open>imageFile\<close>, or no image when there is none or it does not decode.\<close>

definition reflects_latest_request :: "browser \<Rightarrow> bool" where
  "reflects_latest_request b =
     (image_state (display b) =
        (case imageFile (display b) of None \<Rightarrow> None | Some file \<Rightarrow> decoded file))"

section \<open>Sample data\<close>

definition imageA :: HTMLImageElement where
  "imageA = \<lparr> naturalWidth = 2000, naturalHeight = 1000, src = ''data:image/png;base64,QQ=='' \<rparr>"

definition imageB :: HTMLImageElement where
  "imageB = \<lparr> naturalWidth = 640, naturalHeight = 480, src = ''data:image/png;base64,Qg=='' \<rparr>"

definition fileA :: File where
  "fileA = File ''a.png'' (Some imageA)"

definition fileB :: File where
  "fileB = File ''b.png'' (Some imageB)"

definition brokenFile :: File where
  "brokenFile = File ''broken.png'' None"

text \<open>A canvas element as created: 300 by 150, nothing painted.\<close>

definition blank_canvas :: HTMLCanvasElement where
  "blank_canvas = \<lparr> canvas_width = 300, canvas_height = 150, ctx = default_context, bitmap = [] \<rparr>"

text \<open>A session on image A with one committed stroke and a second stroke under way.\<close>

definition marking :: component where
  "marking =
     \<lparr> imageFile = Some fileA, maxDisplayWidth = Fin 800, maxDisplayHeight = Fin 600,
       image_state = Some imageA, drawingPaths = [[Point 5 5, Point 20 5]],
       isDrawing = True, currentPath = [Point 10 10, Point 50 10],
       canvasRef = Some blank_canvas,
       effects = [OnSelectionChange False, OnSelectionChange True] \<rparr>"

text \<open>The component mounted with no file.\<close>

definition idle_browser :: browser where
  "idle_browser = mount None blank_canvas"

text \<open>An image one pixel wide, and a session showing it within 600 by 450, the bounds
  the application passes.\<close>

definition sliver :: HTMLImageElement where
  "sliver = \<lparr> naturalWidth = 1, naturalHeight = 500, src = ''data:image/png;base64,Uw=='' \<rparr>"

definition sliver_session :: component where
  "sliver_session =
     \<lparr> imageFile = Some (File ''sliver.png'' (Some sliver)),
       maxDisplayWidth = Fin 600, maxDisplayHeight = Fin 450,
       image_state = Some sliver, drawingPaths = [], isDrawing = False, currentPath = [],
       canvasRef = Some blank_canvas, effects = [OnSelectionChange False] \<rparr>"

text \<open>File A is requested, then file B; B's decode completes first, A's last.\<close>

definition overtaken :: "load_event list" where
  "overtaken =
     [ImageFileProp (Some fileA), ImageFileProp (Some fileB), DecodeCompletes 1, DecodeCompletes 0]"

section \<open>Auxiliary facts\<close>

text \<open>Rounding, evaluated on numerals.\<close>

lemma bit_length_numeral:
  "bit_length (numeral (Num.Bit0 n)) = Suc (bit_length (numeral n))"
  "bit_length (numeral (Num.Bit1 n)) = Suc (bit_length (numeral n))"
  "bit_length (Suc 0) = Suc 0" "bit_length 1 = Suc 0" "bit_length 0 = 0"
  by (simp_all add: bit_length.simps [of "numeral (Num.Bit0 n)"]
        bit_length.simps [of "numeral (Num.Bit1 n)"] bit_length.simps [of "Suc 0"]
        bit_length.simps [of 0] bit_length.simps [of 1])

lemmas js_round_eval = js_round_def round_positive_def binary_exponent_def pow2_def
  round_half_even_def Let_def bit_length_numeral

text \<open>The quotient of two positive numbers is a number that is not negative, or
  \<open>Infinity\<close>.\<close>

lemma pow2_positive: "0 < pow2 e"
  by (simp add: pow2_def)

lemma round_half_even_nonneg: "0 \<le> x \<Longrightarrow> 0 \<le> round_half_even x"
  by (simp add: round_half_even_def Let_def)

lemma round_positive_nonneg: "0 \<le> x \<Longrightarrow> 0 \<le> round_positive x"
  by (simp add: round_positive_def Let_def round_half_even_nonneg pow2_positive less_imp_le)

lemma js_round_positive:
  assumes "0 < x"
  shows "js_round x = PosInf \<or> (\<exists>r. js_round x = Fin r \<and> 0 \<le> r)"
  using assms round_positive_nonneg [of x] by (simp add: js_round_def Let_def)

lemma js_div_positive:
  assumes "0 < a" and "0 < b"
  shows "js_div (Fin a) (Fin b) = PosInf \<or> (\<exists>r. js_div (Fin a) (Fin b) = Fin r \<and> 0 \<le> r)"
  using assms js_round_positive [of "a / b"] by simp

lemma Math_min_three:
  assumes "qx = PosInf \<or> (\<exists>r. qx = Fin r \<and> 0 \<le> r)"
    and "qy = PosInf \<or> (\<exists>r. qy = Fin r \<and> 0 \<le> r)"
  shows "\<exists>k. Math_min [qx, qy, Fin 1] = Fin k \<and> 0 \<le> k \<and> k \<le> 1"
  using assms by (auto simp add: Math_min_def)

text \<open>
  Rounding shows at 1078 by 500 within 800 by 600: the scale is the double
  0.7421150278293135 and the display width the double 799.9999999999999, not 800, so the
  canvas gets 799 pixels.
\<close>

lemma displayGeometry_1078_by_500:
  "displayGeometry (Fin 800) (Fin 600) \<lparr> naturalWidth = 1078, naturalHeight = 500, src = [] \<rparr>
     = \<lparr> scale = Fin (6684377925596283 / 2 ^ 53),
         displayWidth = Fin (7036874417766399 / 2 ^ 43),
         displayHeight = Fin (101995512780705 / 2 ^ 38) \<rparr>"
  by (simp add: displayGeometry_def Math_min_def js_round_eval)

lemma canvas_width_1078_by_500:
  "reflect_unsigned_long 300 (Fin (7036874417766399 / 2 ^ 43)) = 799"
  by (simp add: reflect_unsigned_long_def)

lemma displayGeometry_imageA:
  "displayGeometry (Fin 800) (Fin 600) imageA
     = \<lparr> scale = Fin (3602879701896397 / 2 ^ 53), displayWidth = Fin 800,
         displayHeight = Fin 400 \<rparr>"
  by (simp add: displayGeometry_def Math_min_def imageA_def js_round_eval)

text \<open>The sliver within 600 by 450: the scale is the double 0.9, and so is the display
  width, which leaves the canvas no column of pixels.\<close>

lemma displayGeometry_sliver:
  "displayGeometry (Fin 600) (Fin 450) sliver
     = \<lparr> scale = Fin (8106479329266893 / 2 ^ 53),
         displayWidth = Fin (8106479329266893 / 2 ^ 53), displayHeight = Fin 450 \<rparr>"
  by (simp add: displayGeometry_def Math_min_def sliver_def js_round_eval)

lemma host_calls_append: "host_calls (es @ fs) = host_calls es @ host_calls fs"
  by (induction es rule: host_calls.induct) simp_all

lemma ctx_strokePath: "ctx (strokePath p c) = ctx c"
  by (simp add: strokePath_def)

lemma drawPath_short: "length p < 2 \<Longrightarrow> drawPath c p = c"
  by (simp add: drawPath_def)

lemma drawPath_long: "\<not> length p < 2 \<Longrightarrow> drawPath c p = strokePath p c"
  by (simp add: drawPath_def)

text \<open>The \<^verbatim>\<open>forEach\<close> loop appends one stroke for each path of two points or more, in
  order, and touches nothing but the bitmap.\<close>

lemma foldl_drawPath:
  "foldl drawPath c ps =
     c\<lparr> bitmap := bitmap c @
          map (\<lambda>p. Stroke (strokeStyle (ctx c)) (lineWidth (ctx c)) (lineCap (ctx c))
                    (lineJoin (ctx c)) (tracePath p))
            (filter (\<lambda>p. \<not> length p < 2) ps) \<rparr>"
proof (induction ps arbitrary: c)
  case Nil
  show ?case by simp
next
  case (Cons p ps)
  show ?case
  proof (cases "length p < 2")
    case True
    then show ?thesis by (simp add: drawPath_short Cons.IH)
  next
    case False
    then have "foldl drawPath c (p # ps) = foldl drawPath (strokePath p c) ps"
      by (simp add: drawPath_long)
    also have "\<dots> = (strokePath p c)\<lparr> bitmap := bitmap (strokePath p c) @
          map (\<lambda>p. Stroke (strokeStyle (ctx c)) (lineWidth (ctx c)) (lineCap (ctx c))
                    (lineJoin (ctx c)) (tracePath p))
            (filter (\<lambda>p. \<not> length p < 2) ps) \<rparr>"
      by (simp add: Cons.IH ctx_strokePath)
    finally show ?thesis using False by (simp add: strokePath_def)
  qed
qed

text \<open>The canvas after the image branch of the draw effect, when the size test made it
  assign the dimensions and when it made it clear the rectangle.\<close>

lemma drawComposite_resized:
  assumes "js_strict_neq (Fin (real (canvas_width c))) (displayWidth (displayGeometry mw mh img))
           \<or> js_strict_neq (Fin (real (canvas_height c))) (displayHeight (displayGeometry mw mh img))"
  shows "drawComposite mw mh img ps d cur c =
     \<lparr> canvas_width = reflect_unsigned_long 300 (displayWidth (displayGeometry mw mh img)),
       canvas_height = reflect_unsigned_long 150 (displayHeight (displayGeometry mw mh img)),
       ctx = default_context\<lparr> strokeStyle := ''rgba(239, 68, 68, 0.9)'', lineWidth := 3,
                                lineCap := ''round'', lineJoin := ''round'' \<rparr>,
       bitmap = DrawImage img (Fin 0) (Fin 0) (displayWidth (displayGeometry mw mh img))
                  (displayHeight (displayGeometry mw mh img))
                # map (\<lambda>p. Stroke ''rgba(239, 68, 68, 0.9)'' 3 ''round'' ''round'' (tracePath p))
                    (filter (\<lambda>p. \<not> length p < 2) ps)
                @ (if d \<and> length cur > 1
                   then [Stroke ''rgba(239, 68, 68, 0.9)'' 3 ''round'' ''round'' (tracePath cur)]
                   else []) \<rparr>"
  using assms
  by (simp add: drawComposite_def Let_def foldl_drawPath strokePath_def drawImage_def
        set_width_def set_height_def)

lemma drawComposite_cleared:
  assumes "\<not> (js_strict_neq (Fin (real (canvas_width c))) (displayWidth (displayGeometry mw mh img))
           \<or> js_strict_neq (Fin (real (canvas_height c))) (displayHeight (displayGeometry mw mh img)))"
  shows "drawComposite mw mh img ps d cur c =
     \<lparr> canvas_width = canvas_width c,
       canvas_height = canvas_height c,
       ctx = (ctx c)\<lparr> strokeStyle := ''rgba(239, 68, 68, 0.9)'', lineWidth := 3,
                                lineCap := ''round'', lineJoin := ''round'' \<rparr>,
       bitmap = DrawImage img (Fin 0) (Fin 0) (displayWidth (displayGeometry mw mh img))
                  (displayHeight (displayGeometry mw mh img))
                # map (\<lambda>p. Stroke ''rgba(239, 68, 68, 0.9)'' 3 ''round'' ''round'' (tracePath p))
                    (filter (\<lambda>p. \<not> length p < 2) ps)
                @ (if d \<and> length cur > 1
                   then [Stroke ''rgba(239, 68, 68, 0.9)'' 3 ''round'' ''round'' (tracePath cur)]
                   else []) \<rparr>"
  using assms
  by (simp add: drawComposite_def Let_def foldl_drawPath strokePath_def drawImage_def
        clearRect_def whole_canvas_def)

lemma drawComposite_twice:
  "drawComposite mw mh img ps d cur (drawComposite mw mh img ps d cur c)
     = drawComposite mw mh img ps d cur c"
proof -
  let ?D = "drawComposite mw mh img ps d cur"
  let ?g = "displayGeometry mw mh img"
  let ?changed = "\<lambda>k. js_strict_neq (Fin (real (canvas_width k))) (displayWidth ?g)
           \<or> js_strict_neq (Fin (real (canvas_height k))) (displayHeight ?g)"
  show ?thesis
  proof (cases "?changed c")
    case first: True
    note once = drawComposite_resized [OF first, of ps d cur]
    show ?thesis
    proof (cases "?changed (?D c)")
      case True
      from drawComposite_resized [OF True, of ps d cur] once [symmetric]
      show ?thesis by (rule trans)
    next
      case False
      show ?thesis
        using drawComposite_cleared [OF False, of ps d cur] by (simp add: once)
    qed
  next
    case first: False
    note once = drawComposite_cleared [OF first, of ps d cur]
    have same: "canvas_width (?D c) = canvas_width c" "canvas_height (?D c) = canvas_height c"
      by (simp_all add: once)
    have again: "\<not> ?changed (?D c)"
      using first by (simp add: same)
    show ?thesis
      using drawComposite_cleared [OF again, of ps d cur] by (simp add: once)
  qed
qed

lemma drawPlaceholder_twice:
  "drawPlaceholder mw mh (drawPlaceholder mw mh c) = drawPlaceholder mw mh c"
  by (simp add: drawPlaceholder_def Let_def fillRect_def fillText_def whole_canvas_def
        opaque_colour_def set_width_def set_height_def default_context_def)

lemma draw_twice: "draw s (draw s c) = draw s c"
  by (simp add: draw_def drawPlaceholder_twice drawComposite_twice split: option.split)

text \<open>The size the image branch gives the canvas does not depend on the strokes.\<close>

lemma drawComposite_size:
  "canvas_width (drawComposite mw mh img ps d cur c)
     = canvas_width (drawComposite mw mh img ps' d' cur' c)
   \<and> canvas_height (drawComposite mw mh img ps d cur c)
     = canvas_height (drawComposite mw mh img ps' d' cur' c)"
proof (cases "js_strict_neq (Fin (real (canvas_width c))) (displayWidth (displayGeometry mw mh img))
           \<or> js_strict_neq (Fin (real (canvas_height c))) (displayHeight (displayGeometry mw mh img))")
  case True
  show ?thesis
    by (simp add: drawComposite_resized [OF True])
next
  case False
  show ?thesis
    by (simp add: drawComposite_cleared [OF False])
qed

lemma draw_clearSelection_size:
  "canvas_width (draw (clearSelection s) c) = canvas_width (draw s c)
   \<and> canvas_height (draw (clearSelection s) c) = canvas_height (draw s c)"
  using drawComposite_size [of "maxDisplayWidth s" "maxDisplayHeight s" _ "[]" False "[]" c
      "drawingPaths s" "isDrawing s" "currentPath s"]
  by (simp add: draw_def clearSelection_def split: option.split)

text \<open>The draw effect on the sample session, from the canvas as created.\<close>

lemma draw_marking:
  "draw marking blank_canvas =
     \<lparr> canvas_width = 800, canvas_height = 400,
       ctx = default_context\<lparr> strokeStyle := ''rgba(239, 68, 68, 0.9)'', lineWidth := 3,
                                lineCap := ''round'', lineJoin := ''round'' \<rparr>,
       bitmap = [DrawImage imageA (Fin 0) (Fin 0) (Fin 800) (Fin 400),
                 Stroke ''rgba(239, 68, 68, 0.9)'' 3 ''round'' ''round'' [MoveTo 5 5, LineTo 20 5],
                 Stroke ''rgba(239, 68, 68, 0.9)'' 3 ''round'' ''round'' [MoveTo 10 10, LineTo 50 10]] \<rparr>"
  by (simp add: draw_def marking_def blank_canvas_def drawComposite_def displayGeometry_imageA
        Let_def set_width_def set_height_def reflect_unsigned_long_def drawImage_def
        drawPath_def strokePath_def)

lemma draw_sliver_session:
  "draw sliver_session blank_canvas =
     \<lparr> canvas_width = 0, canvas_height = 450,
       ctx = default_context\<lparr> strokeStyle := ''rgba(239, 68, 68, 0.9)'', lineWidth := 3,
                                lineCap := ''round'', lineJoin := ''round'' \<rparr>,
       bitmap = [DrawImage sliver (Fin 0) (Fin 0) (Fin (8106479329266893 / 2 ^ 53)) (Fin 450)] \<rparr>"
  by (simp add: draw_def sliver_session_def blank_canvas_def drawComposite_def
        displayGeometry_sliver Let_def set_width_def set_height_def reflect_unsigned_long_def
        drawImage_def)

text \<open>A completion callback of a request in flight, whichever it is.\<close>

lemma completes_applied:
  assumes "i < length (in_flight b)"
  shows "image_state (display (completes i b)) = decoded (in_flight b ! i)"
    and "drawingPaths (display (completes i b)) = []"
    and "in_flight (completes i b) = take i (in_flight b) @ drop (Suc i) (in_flight b)"
  using assms
  by (simp_all add: completes_def img_onload_def img_onerror_def split: option.split)

text \<open>When the requests in flight complete oldest first, the last one requested is the
  one the session ends on.\<close>

lemma completes_in_order:
  assumes "in_flight b = fs" and "fs \<noteq> []"
  shows "in_flight (run b (replicate (length fs) (DecodeCompletes 0))) = []
         \<and> image_state (display (run b (replicate (length fs) (DecodeCompletes 0))))
             = decoded (last fs)"
  using assms
proof (induction fs arbitrary: b)
  case Nil
  then show ?case by simp
next
  case (Cons f fs)
  let ?b1 = "completes 0 b"
  have pos: "0 < length (in_flight b)" using Cons.prems by simp
  have rest: "in_flight ?b1 = fs"
    using completes_applied(3) [OF pos] Cons.prems by simp
  have img: "image_state (display ?b1) = decoded f"
    using completes_applied(1) [OF pos] Cons.prems by simp
  have step: "run b (replicate (length (f # fs)) (DecodeCompletes 0))
               = run ?b1 (replicate (length fs) (DecodeCompletes 0))"
    by (simp add: run_def)
  show ?case
  proof (cases "fs = []")
    case True
    then show ?thesis using rest img by (simp add: run_def)
  next
    case False
    from Cons.IH [OF rest False] show ?thesis
      unfolding step using False by simp
  qed
qed

text \<open>The draw effect reads everything but the canvas ref from the session.\<close>

lemma draw_canvasRef: "draw (s\<lparr> canvasRef := r \<rparr>) canvas = draw s canvas"
  by (simp add: draw_def split: option.split)

lemma drawEffect_twice: "drawEffect (drawEffect s) = drawEffect s"
proof (cases "canvasRef s")
  case None
  then show ?thesis by (simp add: drawEffect_def)
next
  case (Some canvas)
  then have "drawEffect s = s\<lparr> canvasRef := Some (draw s canvas) \<rparr>"
    by (simp add: drawEffect_def)
  then show ?thesis
    by (simp add: drawEffect_def draw_canvasRef draw_twice)
qed

section \<open>Claims\<close>

subsection \<open>C1: the display scale\<close>

text \<open>
  C1. For an image of positive natural width and height and positive display bounds, the
  scale the draw effect computes is \<^verbatim>\<open>Math.min\<close> of the two quotients
  \<^verbatim>\<open>maxDisplayWidth / naturalWidth\<close>, \<^verbatim>\<open>maxDisplayHeight / naturalHeight\<close> and 1; it is
  a finite number, not negative and never above 1, and the display width and height are
  the products of the natural width and height with that scale. Quotients and products are
  the program's: each is the exact result rounded to the nearest double. A 2000 by 1000
  image in bounds of 800 by 600 gets the scale 0.4 (the double nearest to it) and the
  display size 800 by 400.
\<close>

theorem displayGeometry_scale_and_size:
  assumes "0 < naturalWidth img" and "0 < naturalHeight img" and "0 < mw" and "0 < mh"
  shows "(\<exists>k. 0 \<le> k \<and> k \<le> 1
            \<and> scale (displayGeometry (Fin mw) (Fin mh) img) = Fin k
            \<and> Fin k = Math_min [js_div (Fin mw) (Fin (real (naturalWidth img))),
                                  js_div (Fin mh) (Fin (real (naturalHeight img))), Fin 1]
            \<and> displayWidth (displayGeometry (Fin mw) (Fin mh) img)
                = js_mul (Fin (real (naturalWidth img))) (Fin k)
            \<and> displayHeight (displayGeometry (Fin mw) (Fin mh) img)
                = js_mul (Fin (real (naturalHeight img))) (Fin k))
         \<and> displayGeometry (Fin 800) (Fin 600)
               (img\<lparr> naturalWidth := 2000, naturalHeight := 1000 \<rparr>)
             = \<lparr> scale = js_round 0.4, displayWidth = Fin 800, displayHeight = Fin 400 \<rparr>"
proof -
  let ?qx = "js_div (Fin mw) (Fin (real (naturalWidth img)))"
  let ?qy = "js_div (Fin mh) (Fin (real (naturalHeight img)))"
  have "?qx = PosInf \<or> (\<exists>r. ?qx = Fin r \<and> 0 \<le> r)"
    using assms by (intro js_div_positive) simp_all
  moreover have "?qy = PosInf \<or> (\<exists>r. ?qy = Fin r \<and> 0 \<le> r)"
    using assms by (intro js_div_positive) simp_all
  ultimately obtain k where k: "Math_min [?qx, ?qy, Fin 1] = Fin k" "0 \<le> k" "k \<le> 1"
    using Math_min_three by blast
  then have general: "\<exists>k. 0 \<le> k \<and> k \<le> 1
            \<and> scale (displayGeometry (Fin mw) (Fin mh) img) = Fin k
            \<and> Fin k = Math_min [?qx, ?qy, Fin 1]
            \<and> displayWidth (displayGeometry (Fin mw) (Fin mh) img)
                = js_mul (Fin (real (naturalWidth img))) (Fin k)
            \<and> displayHeight (displayGeometry (Fin mw) (Fin mh) img)
                = js_mul (Fin (real (naturalHeight img))) (Fin k)"
    by (intro exI [of _ k]) (simp add: displayGeometry_def Let_def)
  have scenario: "displayGeometry (Fin 800) (Fin 600)
               (img\<lparr> naturalWidth := 2000, naturalHeight := 1000 \<rparr>)
             = \<lparr> scale = js_round 0.4, displayWidth = Fin 800, displayHeight = Fin 400 \<rparr>"
    by (simp add: displayGeometry_def Math_min_def js_round_eval)
  from general scenario show ?thesis ..
qed

theorem displayGeometry_2000_by_1000:
  "displayGeometry (Fin 800) (Fin 600) imageA
     = \<lparr> scale = Fin (3602879701896397 / 2 ^ 53), displayWidth = Fin 800,
         displayHeight = Fin 400 \<rparr>"
proof -
  have positive: "0 < naturalWidth imageA" "0 < naturalHeight imageA" "(0::real) < 800"
    "(0::real) < 600"
    by (simp_all add: imageA_def)
  have nearest: "js_round 0.4 = Fin (3602879701896397 / 2 ^ 53)"
    by (simp add: js_round_eval)
  from displayGeometry_scale_and_size [OF positive]
  have "displayGeometry (Fin 800) (Fin 600)
          (imageA\<lparr> naturalWidth := 2000, naturalHeight := 1000 \<rparr>)
        = \<lparr> scale = js_round 0.4, displayWidth = Fin 800, displayHeight = Fin 400 \<rparr>" ..
  moreover have "imageA\<lparr> naturalWidth := 2000, naturalHeight := 1000 \<rparr> = imageA"
    by (simp add: imageA_def)
  ultimately show ?thesis
    by (simp only: nearest)
qed

subsection \<open>C2: the end of a gesture\<close>

text \<open>
  C2, as stated, has the end of every gesture commit or drop the active stroke and reset it
  in all cases. The handler first returns when no image is loaded. On the sample session
  the decode of a new source fails while the second stroke is under way: the end of the
  gesture then changes nothing, the stroke of two points is not appended, the active
  stroke is not emptied and drawing has not stopped.
\<close>

theorem handleInteractionEnd_without_image_keeps_stroke:
  "isDrawing (img_onerror marking)
   \<and> currentPath (img_onerror marking) = [Point 10 10, Point 50 10]
   \<and> handleInteractionEnd (img_onerror marking) = img_onerror marking
   \<and> drawingPaths (handleInteractionEnd (img_onerror marking)) = []
   \<and> currentPath (handleInteractionEnd (img_onerror marking)) = [Point 10 10, Point 50 10]
   \<and> isDrawing (handleInteractionEnd (img_onerror marking))"
  by (simp add: handleInteractionEnd_def img_onerror_def marking_def)

text \<open>
  C2, amended. Every stroke that the end of a gesture (mouse up, mouse leave, touch end)
  adds to the committed strokes has two points or more. While a stroke is being drawn on a
  loaded image, the end of the gesture appends the active stroke to the end of the
  committed strokes and calls \<^verbatim>\<open>onSelectionChange\<close> with "the committed strokes are not
  empty" when the stroke has two points or more; with fewer points the stroke is dropped,
  the committed strokes stay as they are and the host is not called at all; either way the
  active stroke is empty afterwards and drawing has stopped. When nothing is being drawn
  or no image is loaded, the end of the gesture changes nothing.
\<close>

theorem handleInteractionEnd_by_cases:
  "let s' = handleInteractionEnd s in
     (if isDrawing s \<and> image_state s \<noteq> None
      then (if 2 \<le> length (currentPath s)
            then drawingPaths s' = drawingPaths s @ [currentPath s]
                 \<and> effects s' = effects s @ [OnSelectionChange (length (drawingPaths s') > 0)]
            else drawingPaths s' = drawingPaths s \<and> effects s' = effects s)
           \<and> currentPath s' = [] \<and> \<not> isDrawing s'
      else s' = s)
     \<and> (\<forall>p \<in> set (drawingPaths s') - set (drawingPaths s). 2 \<le> length p)"
  by (auto simp add: handleInteractionEnd_def Let_def)

theorem handleInteractionEnd_tap_and_stroke:
  "drawingPaths (handleInteractionEnd (marking\<lparr> currentPath := [Point 10 10] \<rparr>))
     = [[Point 5 5, Point 20 5]]
   \<and> effects (handleInteractionEnd (marking\<lparr> currentPath := [Point 10 10] \<rparr>))
     = [OnSelectionChange False, OnSelectionChange True]
   \<and> currentPath (handleInteractionEnd (marking\<lparr> currentPath := [Point 10 10] \<rparr>)) = []
   \<and> drawingPaths (handleInteractionEnd marking)
     = [[Point 5 5, Point 20 5], [Point 10 10, Point 50 10]]
   \<and> effects (handleInteractionEnd marking)
     = [OnSelectionChange False, OnSelectionChange True, OnSelectionChange True]
   \<and> currentPath (handleInteractionEnd marking) = []
   \<and> handleInteractionEnd (marking\<lparr> image_state := None \<rparr>)
     = marking\<lparr> image_state := None \<rparr>"
proof -
  let ?tap = "marking\<lparr> currentPath := [Point 10 10] \<rparr>"
  let ?gone = "marking\<lparr> image_state := None \<rparr>"
  have tap: "isDrawing ?tap \<and> image_state ?tap \<noteq> None"
    by (simp add: marking_def)
  have stroke: "isDrawing marking \<and> image_state marking \<noteq> None"
    by (simp add: marking_def)
  have gone: "\<not> (isDrawing ?gone \<and> image_state ?gone \<noteq> None)"
    by simp
  have short: "\<not> 2 \<le> length (currentPath ?tap)"
    by simp
  have long: "2 \<le> length (currentPath marking)"
    by (simp add: marking_def)
  from handleInteractionEnd_by_cases [of ?tap] tap short
  have a: "drawingPaths (handleInteractionEnd ?tap) = drawingPaths ?tap
           \<and> effects (handleInteractionEnd ?tap) = effects ?tap
           \<and> currentPath (handleInteractionEnd ?tap) = []"
    unfolding Let_def by presburger
  from handleInteractionEnd_by_cases [of marking] stroke long
  have b: "drawingPaths (handleInteractionEnd marking) = drawingPaths marking @ [currentPath marking]
           \<and> effects (handleInteractionEnd marking)
               = effects marking
                 @ [OnSelectionChange (length (drawingPaths (handleInteractionEnd marking)) > 0)]
           \<and> currentPath (handleInteractionEnd marking) = []"
    unfolding Let_def by presburger
  from handleInteractionEnd_by_cases [of ?gone] gone
  have c: "handleInteractionEnd ?gone = ?gone"
    unfolding Let_def by presburger
  have known: "drawingPaths ?tap = [[Point 5 5, Point 20 5]]"
    "effects ?tap = [OnSelectionChange False, OnSelectionChange True]"
    "drawingPaths marking = [[Point 5 5, Point 20 5]]"
    "currentPath marking = [Point 10 10, Point 50 10]"
    "effects marking = [OnSelectionChange False, OnSelectionChange True]"
    by (simp_all add: marking_def)
  from a b c show ?thesis
    unfolding known by simp
qed

subsection \<open>C3: a new image while a stroke is under way\<close>

text \<open>
  C3. \<^verbatim>\<open>img.onload\<close> replaces the image, empties the committed strokes and tells the
  host that nothing is selected, but it leaves \<^verbatim>\<open>isDrawing\<close> and \<^verbatim>\<open>currentPath\<close> alone.
  On the sample session, whose second stroke is under way on image A, the stroke survives
  the load of image B, and the end of the gesture commits it to image B and reports a
  selection.
\<close>

theorem img_onload_keeps_stroke_under_way:
  "image_state (img_onload imageB marking) = Some imageB
   \<and> drawingPaths (img_onload imageB marking) = []
   \<and> isDrawing (img_onload imageB marking)
   \<and> currentPath (img_onload imageB marking) = [Point 10 10, Point 50 10]
   \<and> drawingPaths (handleInteractionEnd (img_onload imageB marking))
       = [[Point 10 10, Point 50 10]]
   \<and> host_calls (effects (handleInteractionEnd (img_onload imageB marking)))
       = [False, True, False, True]"
  by (simp add: img_onload_def marking_def handleInteractionEnd_def Let_def)

theorem img_onload_stale_stroke_committed:
  "currentPath (img_onload imageB marking) \<noteq> []
   \<and> drawingPaths (handleInteractionEnd (img_onload imageB marking)) \<noteq> []"
  using img_onload_keeps_stroke_under_way by simp

subsection \<open>C4: a source that does not decode\<close>

text \<open>
  C4, as stated, has the failure signalled to the host. The component has no failure
  channel: \<^verbatim>\<open>img.onerror\<close> writes one line to the console and then calls
  \<^verbatim>\<open>onSelectionChange(false)\<close>, which is exactly what the host receives after a
  successful load.
\<close>

theorem img_onerror_reaches_host_as_onload_does:
  "effects (img_onerror marking)
     = effects marking @ [ConsoleError ''Error loading image source.'', OnSelectionChange False]
   \<and> host_calls (effects (img_onerror marking))
     = host_calls (effects (img_onload imageB marking))"
  by (simp add: img_onerror_def img_onload_def marking_def)

text \<open>
  C4, amended. When the decode of a source in flight fails, the session is left without
  an image, the committed strokes are emptied, a line is written to the console and the
  host is called once, with \<open>False\<close>.
\<close>

theorem undecodable_source_empties_session:
  assumes "i < length (in_flight b)" and "decoded (in_flight b ! i) = None"
  shows "image_state (display (completes i b)) = None
         \<and> drawingPaths (display (completes i b)) = []
         \<and> effects (display (completes i b))
             = effects (display b)
               @ [ConsoleError ''Error loading image source.'', OnSelectionChange False]
         \<and> host_calls (effects (display (completes i b)))
             = host_calls (effects (display b)) @ [False]"
  using assms by (simp add: completes_def img_onerror_def host_calls_append)

theorem undecodable_source_after_marking:
  "image_state (display (completes 0
      (setImageFile (Some brokenFile) \<lparr> display = marking, in_flight = [] \<rparr>))) = None
   \<and> drawingPaths (display (completes 0
      (setImageFile (Some brokenFile) \<lparr> display = marking, in_flight = [] \<rparr>))) = []
   \<and> host_calls (effects (display (completes 0
      (setImageFile (Some brokenFile) \<lparr> display = marking, in_flight = [] \<rparr>))))
       = [False, True, False]"
proof -
  let ?b = "setImageFile (Some brokenFile) \<lparr> display = marking, in_flight = [] \<rparr>"
  have flight: "in_flight ?b = [brokenFile]"
    by (simp add: setImageFile_def loadEffect_def)
  have shown: "effects (display ?b) = [OnSelectionChange False, OnSelectionChange True]"
    by (simp add: setImageFile_def loadEffect_def marking_def)
  have pending: "0 < length (in_flight ?b)"
    by (simp add: flight)
  have undecodable: "decoded (in_flight ?b ! 0) = None"
    unfolding flight by (simp add: brokenFile_def)
  from undecodable_source_empties_session [OF pending undecodable] show ?thesis
    by (simp add: shown)
qed

subsection \<open>C5: the export\<close>

text \<open>
  C5, as stated, has every export with an image loaded be a non-empty encoding. The
  sliver, one pixel wide, is shown within 600 by 450 at the scale 0.9: its display width
  0.9 leaves the canvas 0 pixels wide, and the export of that canvas is the empty data URL
  \<^verbatim>\<open>data:,\<close> although an image is loaded.
\<close>

theorem getAnnotatedImageDataUrl_of_sliver_is_empty:
  "image_state sliver_session = Some sliver
   \<and> canvasRef (drawEffect sliver_session) = Some (draw sliver_session blank_canvas)
   \<and> canvas_width (draw sliver_session blank_canvas) = 0
   \<and> getAnnotatedImageDataUrl (drawEffect sliver_session) = Some EmptyDataURL"
proof -
  have loaded: "image_state sliver_session = Some sliver"
    by (simp add: sliver_session_def)
  have mounted: "canvasRef sliver_session = Some blank_canvas"
    by (simp add: sliver_session_def)
  have drawn: "drawEffect sliver_session
                 = sliver_session\<lparr> canvasRef := Some (draw sliver_session blank_canvas) \<rparr>"
    by (simp add: drawEffect_def mounted)
  show ?thesis
    unfolding drawn
    by (simp add: getAnnotatedImageDataUrl_def loaded draw_sliver_session toDataURL_def)
qed

text \<open>
  C5, amended. With the canvas mounted, \<^verbatim>\<open>getAnnotatedImageDataUrl\<close> returns nothing
  exactly when no image is loaded. With an image loaded it returns the data URL of the
  canvas as the draw effect last painted it: the PNG encoding of that composite when the
  canvas has a positive width and height, and the empty data URL \<^verbatim>\<open>data:,\<close> when the
  display width or height has been truncated to 0.
\<close>

theorem getAnnotatedImageDataUrl_of_drawn_canvas:
  assumes "canvasRef s = Some canvas"
  shows "(getAnnotatedImageDataUrl s = None) = (image_state s = None)
         \<and> (getAnnotatedImageDataUrl (drawEffect s) = None) = (image_state s = None)
         \<and> getAnnotatedImageDataUrl (drawEffect s)
             = (if image_state s = None then None
                else if canvas_width (draw s canvas) = 0 \<or> canvas_height (draw s canvas) = 0
                then Some EmptyDataURL
                else Some (DataURL ''image/png'' (canvas_width (draw s canvas))
                             (canvas_height (draw s canvas)) (bitmap (draw s canvas))))"
  using assms by (simp add: getAnnotatedImageDataUrl_def drawEffect_def toDataURL_def)

theorem getAnnotatedImageDataUrl_of_marking:
  "getAnnotatedImageDataUrl (drawEffect marking)
     = Some (DataURL ''image/png'' 800 400
         [DrawImage imageA (Fin 0) (Fin 0) (Fin 800) (Fin 400),
          Stroke ''rgba(239, 68, 68, 0.9)'' 3 ''round'' ''round'' [MoveTo 5 5, LineTo 20 5],
          Stroke ''rgba(239, 68, 68, 0.9)'' 3 ''round'' ''round'' [MoveTo 10 10, LineTo 50 10]])
   \<and> getAnnotatedImageDataUrl (drawEffect (marking\<lparr> image_state := None \<rparr>)) = None"
proof -
  have mounted: "canvasRef marking = Some blank_canvas"
    "canvasRef (marking\<lparr> image_state := None \<rparr>) = Some blank_canvas"
    by (simp_all add: marking_def)
  have loaded: "image_state marking \<noteq> None"
    by (simp add: marking_def)
  from getAnnotatedImageDataUrl_of_drawn_canvas [OF mounted(1)]
    getAnnotatedImageDataUrl_of_drawn_canvas [OF mounted(2)] loaded
  show ?thesis
    by (simp add: draw_marking)
qed

subsection \<open>C6: clearing\<close>

text \<open>
  C6. Whatever the session was, after \<^verbatim>\<open>clearSelection\<close> it has no committed stroke and
  no active stroke, it is not drawing, and the host has been called once more, with
  \<open>False\<close>.
\<close>

theorem clearSelection_resets_strokes:
  "drawingPaths (clearSelection s) = [] \<and> currentPath (clearSelection s) = []
   \<and> \<not> isDrawing (clearSelection s)
   \<and> effects (clearSelection s) = effects s @ [OnSelectionChange False]"
  by (simp add: clearSelection_def)

theorem clearSelection_of_marking:
  "drawingPaths (clearSelection marking) = [] \<and> currentPath (clearSelection marking) = []
   \<and> \<not> isDrawing (clearSelection marking)
   \<and> effects (clearSelection marking)
       = [OnSelectionChange False, OnSelectionChange True, OnSelectionChange False]"
  using clearSelection_resets_strokes [of marking] by (simp add: marking_def)

subsection \<open>C7: two loads in flight\<close>

text \<open>
  C7, as stated, has a completion of a superseded request ignored. File A is requested,
  then file B; B's decode completes first and A's last. No request is left in flight, the
  current \<^verbatim>\<open>imageFile\<close> is B, and the session shows image A.
\<close>

theorem stale_completion_overwrites_latest:
  "in_flight (run idle_browser overtaken) = []
   \<and> imageFile (display (run idle_browser overtaken)) = Some fileB
   \<and> image_state (display (run idle_browser overtaken)) = Some imageA
   \<and> \<not> reflects_latest_request (run idle_browser overtaken)"
  by (simp add: run_def idle_browser_def mount_def overtaken_def setImageFile_def
        loadEffect_def completes_def initial_def fileA_def fileB_def imageA_def imageB_def
        img_onload_def reflects_latest_request_def)

text \<open>
  C7, amended. Every completion callback is applied, whichever request it belongs to:
  the session then shows that request's outcome, with no committed stroke. So the session
  ends on the request that completed last; when the requests in flight complete in the
  order they were made, that is the one requested last.
\<close>

theorem every_completion_is_applied:
  assumes "i < length (in_flight b)"
  shows "image_state (display (completes i b)) = decoded (in_flight b ! i)
         \<and> drawingPaths (display (completes i b)) = []
         \<and> in_flight (run b (replicate (length (in_flight b)) (DecodeCompletes 0))) = []
         \<and> image_state (display (run b (replicate (length (in_flight b)) (DecodeCompletes 0))))
             = decoded (last (in_flight b))"
proof -
  from assms have "in_flight b \<noteq> []" by auto
  from completes_in_order [OF refl this] completes_applied(1,2) [OF assms]
  show ?thesis by simp
qed

theorem completion_of_superseded_request:
  "image_state (display (completes 0 (completes (Suc 0)
      (run idle_browser [ImageFileProp (Some fileA), ImageFileProp (Some fileB)])))) = Some imageA
   \<and> image_state (display (run
      (run idle_browser [ImageFileProp (Some fileA), ImageFileProp (Some fileB)])
      [DecodeCompletes 0, DecodeCompletes 0])) = Some imageB"
proof -
  let ?two = "run idle_browser [ImageFileProp (Some fileA), ImageFileProp (Some fileB)]"
  have two: "in_flight ?two = [fileA, fileB]"
    by (simp add: run_def idle_browser_def mount_def setImageFile_def loadEffect_def
          initial_def)
  have one: "in_flight (completes (Suc 0) ?two) = [fileA]"
    by (simp add: completes_def two)
  have stale: "0 < length (in_flight (completes (Suc 0) ?two))"
    by (simp add: one)
  have both: "0 < length (in_flight ?two)"
    by (simp add: two)
  have count: "replicate (length (in_flight ?two)) (DecodeCompletes 0)
                 = [DecodeCompletes 0, DecodeCompletes 0]"
    by (simp add: two)
  from every_completion_is_applied [OF stale] have "image_state (display (completes 0 (completes (Suc 0) ?two))) = decoded (in_flight (completes (Suc 0) ?two) ! 0)"
    by simp
  moreover from every_completion_is_applied [OF both]
  have "image_state (display (run ?two (replicate (length (in_flight ?two)) (DecodeCompletes 0))))
          = decoded (last (in_flight ?two))"
    by simp
  ultimately show ?thesis
    unfolding count unfolding one two by (simp add: fileA_def fileB_def)
qed

subsection \<open>C8: drawing twice\<close>

text \<open>
  C8. For any session and any canvas, running the draw effect a second time on the canvas
  it has just painted leaves the canvas as it is: same size, same drawing state, same
  bitmap. Both branches of the size test start from an empty bitmap, one by assigning the
  dimensions and the other by clearing the rectangle, and the placeholder fills the whole
  canvas with an opaque colour.
\<close>

theorem draw_idempotent:
  "draw s (draw s canvas) = draw s canvas \<and> drawEffect (drawEffect s) = drawEffect s"
  by (simp add: draw_twice drawEffect_twice)

theorem draw_marking_idempotent:
  "draw marking (draw marking blank_canvas) = draw marking blank_canvas
   \<and> bitmap (draw marking (draw marking blank_canvas)) =
       [DrawImage imageA (Fin 0) (Fin 0) (Fin 800) (Fin 400),
        Stroke ''rgba(239, 68, 68, 0.9)'' 3 ''round'' ''round'' [MoveTo 5 5, LineTo 20 5],
        Stroke ''rgba(239, 68, 68, 0.9)'' 3 ''round'' ''round'' [MoveTo 10 10, LineTo 50 10]]"
proof -
  from draw_idempotent [of marking blank_canvas]
  have "draw marking (draw marking blank_canvas) = draw marking blank_canvas" by simp
  then show ?thesis by (simp add: draw_marking)
qed

subsection \<open>C9: clearing keeps the image\<close>

text \<open>
  C9. \<^verbatim>\<open>clearSelection\<close> changes neither the image nor the props nor the canvas ref, so
  the display geometry is the same; the strokes are emptied, and the draw effect that
  follows leaves the canvas at the width and height it had.
\<close>

theorem clearSelection_keeps_image:
  "image_state (clearSelection s) = image_state s
   \<and> imageFile (clearSelection s) = imageFile s
   \<and> maxDisplayWidth (clearSelection s) = maxDisplayWidth s
   \<and> maxDisplayHeight (clearSelection s) = maxDisplayHeight s
   \<and> canvasRef (clearSelection s) = canvasRef s
   \<and> canvas_width (draw (clearSelection s) (draw s canvas)) = canvas_width (draw s canvas)
   \<and> canvas_height (draw (clearSelection s) (draw s canvas)) = canvas_height (draw s canvas)
   \<and> drawingPaths (clearSelection s) = [] \<and> currentPath (clearSelection s) = []"
  using draw_clearSelection_size [of s "draw s canvas"]
  by (simp add: draw_twice) (simp add: clearSelection_def)

theorem clearSelection_keeps_imageA:
  "image_state (clearSelection marking) = Some imageA
   \<and> canvas_width (draw (clearSelection marking) (draw marking blank_canvas)) = 800
   \<and> canvas_height (draw (clearSelection marking) (draw marking blank_canvas)) = 400
   \<and> drawingPaths (clearSelection marking) = []"
  using clearSelection_keeps_image [of marking blank_canvas]
  by (simp add: draw_marking) (simp add: marking_def)

subsection \<open>C10: pointer down while drawing\<close>

text \<open>
  C10. A pointer down with the primary button or a touch, received while a stroke is
  under way on a loaded image, starts a new active stroke holding the new point only. The
  committed strokes and the calls to the host are as before, the result does not depend
  on the points the old stroke had, and a pointer up right after commits nothing.
\<close>

theorem pointer_down_restarts_stroke:
  assumes "isDrawing s" and "image_state s \<noteq> None" and "canvasRef s \<noteq> None"
    and "\<not> secondary_button event" and "getMousePos rect event = Inr pos"
  shows "handleInteractionStart rect event s = Inr (s\<lparr> isDrawing := True, currentPath := [pos] \<rparr>)
         \<and> handleInteractionStart rect event (s\<lparr> currentPath := other \<rparr>)
             = handleInteractionStart rect event s
         \<and> drawingPaths (s\<lparr> isDrawing := True, currentPath := [pos] \<rparr>) = drawingPaths s
         \<and> effects (s\<lparr> isDrawing := True, currentPath := [pos] \<rparr>) = effects s
         \<and> drawingPaths (handleInteractionEnd (s\<lparr> isDrawing := True, currentPath := [pos] \<rparr>))
             = drawingPaths s"
  using assms by (auto simp add: handleInteractionStart_def handleInteractionEnd_def Let_def)

theorem pointer_down_restarts_marking:
  "handleInteractionStart \<lparr> rect_left = 100, rect_top = 40 \<rparr> (MouseEvent 0 170 95) marking
     = Inr (marking\<lparr> isDrawing := True, currentPath := [Point 70 55] \<rparr>)
   \<and> drawingPaths (handleInteractionEnd (marking\<lparr> isDrawing := True, currentPath := [Point 70 55] \<rparr>))
     = [[Point 5 5, Point 20 5]]"
proof -
  have now: "isDrawing marking" "image_state marking \<noteq> None" "canvasRef marking \<noteq> None"
    by (simp_all add: marking_def)
  have primary: "\<not> secondary_button (MouseEvent 0 170 95)"
    by (simp add: secondary_button_def)
  have at: "getMousePos \<lparr> rect_left = 100, rect_top = 40 \<rparr> (MouseEvent 0 170 95) = Inr (Point 70 55)"
    by (simp add: getMousePos_def)
  have before: "drawingPaths marking = [[Point 5 5, Point 20 5]]"
    by (simp add: marking_def)
  from pointer_down_restarts_stroke [OF now primary at] show ?thesis
    unfolding before by simp
qed

end
